theory Spec2Isabelle
  imports Main
begin

section \<open>The legacy ABI wrappers of netplan (src/abi\_compat.c)\<close>

text \<open>
  The file under verification exports the former ABI as short wrappers around the newer
  API.  The wrappers work on two process-wide objects, \<open>global_state\<close> and
  \<open>global_parser\<close>, and on the file system.  The newer API itself (parser, state import,
  backend writers, emitter) lives in other files; where a wrapper's behaviour depends on
  it, the operation is either a parameter of the wrapper's model or a definition marked
  as modelled from the specification.
\<close>

subsection \<open>Data model\<close>

text \<open>
  The backend of a definition: the link-state service (networkd), the connection manager
  (NetworkManager), the virtual-switch daemon (Open vSwitch), or unset.
\<close>

datatype NetplanBackend =
    NETPLAN_BACKEND_NONE
  | NETPLAN_BACKEND_NETWORKD
  | NETPLAN_BACKEND_NM
  | NETPLAN_BACKEND_OVS

datatype NetplanDefType =
    DEF_TYPE_ETHERNET
  | DEF_TYPE_WIFI
  | DEF_TYPE_MODEM
  | DEF_TYPE_BRIDGE
  | DEF_TYPE_BOND
  | DEF_TYPE_VLAN
  | DEF_TYPE_TUNNEL
  | DEF_TYPE_VSWITCH

text \<open>
  Backend-specific passthrough settings: a tagged-variant value (scalar, list, nested map).
\<close>

datatype pvalue =
    PScalar string
  | PList "pvalue list"
  | PMap "(string \<times> pvalue) list"

text \<open>
  One network definition.  A fragment read from a document is a value of the same record
  in which the optional fields may be unset: \<open>None\<close> for the entity kind and the DHCP
  flag, \<open>NETPLAN_BACKEND_NONE\<close> for the backend, empty lists.
\<close>

record NetplanNetDefinition =
  netdef_id :: string
  netdef_type :: "NetplanDefType option"
  filename :: string
  netdef_backend :: NetplanBackend
  dhcp4 :: "bool option"
  addresses :: "string list"
  nameservers :: "string list"
  routes :: "string list"
  passthrough :: "(string \<times> pvalue) list"

text \<open>
  The Definition Table: a list of (identifier, definition) pairs with unique identifiers,
  in first-seen order.  \<open>map_of\<close> is the lookup mapping (the hash table \<open>netdefs\<close>), the
  order of the list is the specification order (\<open>netdefs_ordered\<close>).
\<close>

type_synonym def_table = "(string \<times> NetplanNetDefinition) list"

text \<open>
  \<open>struct netplan_state\<close>: the members the wrapper file names are \<open>netdefs\<close>,
  \<open>netdefs_ordered\<close>, \<open>ovs_settings\<close> and \<open>backend\<close>.
\<close>

record netplan_state =
  netdefs :: def_table
  ovs_settings :: "(string \<times> pvalue) list"
  backend :: NetplanBackend

text \<open>The parser accumulator: the same shape, before validation.\<close>

record netplan_parser =
  parsed_defs :: def_table
  global_ovs_settings :: "(string \<times> pvalue) list"
  global_backend :: NetplanBackend

text \<open>
  The error taxonomy; a \<open>GError\<close> carries a printable message.  A \<open>WriteError\<close> names the
  backend, the identifier of the definition and the cause.
\<close>

datatype error =
    ReadError string
  | ParseError string
  | ConflictError string
  | ValidationError string
  | WriteError NetplanBackend string string

fun error_message :: "error \<Rightarrow> string" where
  "error_message (ReadError p) = ''cannot read '' @ p"
| "error_message (ParseError p) = ''invalid document '' @ p"
| "error_message (ConflictError i) = ''conflicting definitions for '' @ i"
| "error_message (ValidationError i) = ''invalid definition '' @ i"
| "error_message (WriteError b i cause) = ''cannot write definition '' @ i @ '': '' @ cause"

text \<open>
  How a call of a wrapper ends: it returns a value, it terminates the process with
  \<open>exit(status)\<close>, or a \<open>g_assert\<close> fails and the process aborts.
\<close>

datatype 'a outcome = Returned 'a | Exited nat | Aborted

text \<open>
  The process as the wrappers see it: the two global objects, what has been printed on
  standard error, and the file system (of a type left open, since only the external
  collaborators and the system calls look into it).
\<close>

record 'd world =
  global_state :: netplan_state
  global_parser :: netplan_parser
  stderr :: "string list"
  disk :: 'd

subsection \<open>Reset and size of the state\<close>

text \<open>
  Modelled from the spec: \<open>netplan_state_reset\<close>, \<open>netplan_parser_reset\<close> and
  \<open>netplan_state_get_netdefs_size\<close> are not in the wrapper file.  Reset discards every
  definition and the global settings ("reset clears both State and any residual parser
  accumulator so a new pipeline run starts from empty"); the size is the number of
  definitions in the table.
\<close>

definition netplan_state_reset :: "netplan_state \<Rightarrow> netplan_state" where
  "netplan_state_reset np_state =
     \<lparr>netdefs = [], ovs_settings = [], backend = NETPLAN_BACKEND_NONE\<rparr>"

definition netplan_parser_reset :: "netplan_parser \<Rightarrow> netplan_parser" where
  "netplan_parser_reset npp =
     \<lparr>parsed_defs = [], global_ovs_settings = [], global_backend = NETPLAN_BACKEND_NONE\<rparr>"

definition netplan_state_get_netdefs_size :: "netplan_state \<Rightarrow> nat" where
  "netplan_state_get_netdefs_size np_state = length (netdefs np_state)"

text \<open>
  \<^verbatim>\<open>guint netplan_clear_netdefs()\<close>: the size is read first, then both global objects are
  reset, then the size read before the reset is returned.
\<close>

definition netplan_clear_netdefs :: "'d world \<Rightarrow> nat \<times> 'd world" where
  "netplan_clear_netdefs w =
     (let n = netplan_state_get_netdefs_size (global_state w);
          w1 = w\<lparr>global_state := netplan_state_reset (global_state w)\<rparr>;
          w2 = w1\<lparr>global_parser := netplan_parser_reset (global_parser w1)\<rparr>
      in (n, w2))"

subsection \<open>The merge policy of the parser\<close>

text \<open>
  Modelled from the spec: the parser (\<open>netplan_parser_load_yaml\<close>) is not in the wrapper
  file.  The merge policy of section 4.2: (1) the entity kinds must be compatible, else
  \<open>ConflictError\<close>; (2) scalar fields are overwritten by the later fragment where it sets
  them; (3) list fields are unioned, in first-seen order, without duplicates; (4)
  passthrough blocks are merged key by key, later keys winning, nested maps recursively.
\<close>

fun add_unique :: "'a list \<Rightarrow> 'a list \<Rightarrow> 'a list" where
  "add_unique acc [] = acc"
| "add_unique acc (y # ys) = add_unique (if y \<in> set acc then acc else acc @ [y]) ys"

text \<open>
  Modelled from the spec: the union of two list fields, "preserving first-seen order and
  de-duplicating".
\<close>

definition list_union :: "'a list \<Rightarrow> 'a list \<Rightarrow> 'a list" where
  "list_union xs ys = add_unique (add_unique [] xs) ys"

text \<open>
  Modelled from the spec: passthrough blocks are "deep-merged key-by-key with later keys
  winning"; a new key is appended, a known key keeps its place.
\<close>

fun merge_value :: "pvalue \<Rightarrow> pvalue \<Rightarrow> pvalue"
  and merge_map :: "(string \<times> pvalue) list \<Rightarrow> (string \<times> pvalue) list \<Rightarrow> (string \<times> pvalue) list"
where
  "merge_value (PMap a) (PMap b) = PMap (merge_map a b)"
| "merge_value a b = b"
| "merge_map a [] = a"
| "merge_map a ((k, v) # b) =
     merge_map
       (case map_of a k of
          None \<Rightarrow> a @ [(k, v)]
        | Some old \<Rightarrow> map (\<lambda>(k', v'). if k' = k then (k', merge_value old v) else (k', v')) a)
       b"

text \<open>
  Modelled from the spec: the kinds of two fragments conflict when both are set and
  differ (bridge against bond); an unset kind is compatible with every kind.
\<close>

definition kind_conflict :: "NetplanDefType option \<Rightarrow> NetplanDefType option \<Rightarrow> bool" where
  "kind_conflict old new =
     (case old of
        None \<Rightarrow> False
      | Some a \<Rightarrow> (case new of None \<Rightarrow> False | Some b \<Rightarrow> a \<noteq> b))"

text \<open>
  Modelled from the spec: the merge of a later fragment \<open>new\<close> into the definition \<open>old\<close>
  of the same identifier.  The origin file name is the source of the later fragment.
\<close>

definition merge_netdef ::
  "NetplanNetDefinition \<Rightarrow> NetplanNetDefinition \<Rightarrow> error + NetplanNetDefinition" where
  "merge_netdef old new =
     (if kind_conflict (netdef_type old) (netdef_type new)
      then Inl (ConflictError (netdef_id old))
      else Inr \<lparr>
        netdef_id = netdef_id old,
        netdef_type = (case netdef_type new of None \<Rightarrow> netdef_type old | Some k \<Rightarrow> Some k),
        filename = filename new,
        netdef_backend =
          (if netdef_backend new = NETPLAN_BACKEND_NONE then netdef_backend old
           else netdef_backend new),
        dhcp4 = (case dhcp4 new of None \<Rightarrow> dhcp4 old | Some f \<Rightarrow> Some f),
        addresses = list_union (addresses old) (addresses new),
        nameservers = list_union (nameservers old) (nameservers new),
        routes = list_union (routes old) (routes new),
        passthrough = merge_map (passthrough old) (passthrough new)\<rparr>)"

text \<open>
  Modelled from the spec: a fragment for a new identifier is appended to the table (the
  order is the first-seen order); a fragment for a known identifier is merged into the
  entry, which keeps its place.  The fragments of a document are merged in order, and the
  first conflict ends the load.
\<close>

fun table_put :: "string \<Rightarrow> NetplanNetDefinition \<Rightarrow> def_table \<Rightarrow> def_table" where
  "table_put k v [] = [(k, v)]"
| "table_put k v ((k', v') # t) =
     (if k' = k then (k, v) # t else (k', v') # table_put k v t)"

definition merge_fragment :: "def_table \<Rightarrow> NetplanNetDefinition \<Rightarrow> error + def_table" where
  "merge_fragment tbl frag =
     (case map_of tbl (netdef_id frag) of
        None \<Rightarrow> Inr (tbl @ [(netdef_id frag, frag)])
      | Some old \<Rightarrow>
          (case merge_netdef old frag of
             Inl e \<Rightarrow> Inl e
           | Inr d \<Rightarrow> Inr (table_put (netdef_id frag) d tbl)))"

fun merge_fragments :: "def_table \<Rightarrow> NetplanNetDefinition list \<Rightarrow> error + def_table" where
  "merge_fragments tbl [] = Inr tbl"
| "merge_fragments tbl (f # fs) =
     (case merge_fragment tbl f of
        Inl e \<Rightarrow> Inl e
      | Inr tbl' \<Rightarrow> merge_fragments tbl' fs)"

text \<open>
  Modelled from the spec: \<open>load(source)\<close> reads one source through the external document
  reader (a parameter: \<open>read(path)\<close> gives the fragments of the document or an error),
  records the source as the origin of each fragment, and merges the fragments into the
  accumulator.  A failed load gives the error and no accumulator.
\<close>

type_synonym document_reader = "string \<Rightarrow> error + NetplanNetDefinition list"

definition netplan_parser_load_yaml ::
  "document_reader \<Rightarrow> netplan_parser \<Rightarrow> string \<Rightarrow> error + netplan_parser" where
  "netplan_parser_load_yaml reader npp fname =
     (case reader fname of
        Inl e \<Rightarrow> Inl e
      | Inr frags \<Rightarrow>
          (case merge_fragments (parsed_defs npp) (map (\<lambda>f. f\<lparr>filename := fname\<rparr>) frags) of
             Inl e \<Rightarrow> Inl e
           | Inr tbl \<Rightarrow> Inr (npp\<lparr>parsed_defs := tbl\<rparr>)))"

text \<open>
  \<^verbatim>\<open>gboolean netplan_parse_yaml(const char* filename, GError** error)\<close>: the load on the
  global parser.  \<open>Inl e\<close> is the result \<open>FALSE\<close> with the error \<open>e\<close> set.
\<close>

definition netplan_parse_yaml ::
  "document_reader \<Rightarrow> string \<Rightarrow> 'd world \<Rightarrow> (error + unit) \<times> 'd world" where
  "netplan_parse_yaml reader fname w =
     (case netplan_parser_load_yaml reader (global_parser w) fname of
        Inl e \<Rightarrow> (Inl e, w)
      | Inr npp \<Rightarrow> (Inr (), w\<lparr>global_parser := npp\<rparr>))"

text \<open>
  \<^verbatim>\<open>void process_input_file(const char *f)\<close>: the same load; an error is printed on
  standard error, followed by a newline, and the process exits with status 1.
\<close>

definition process_input_file ::
  "document_reader \<Rightarrow> string \<Rightarrow> 'd world \<Rightarrow> unit outcome \<times> 'd world" where
  "process_input_file reader f w =
     (case netplan_parser_load_yaml reader (global_parser w) f of
        Inl e \<Rightarrow> (Exited 1, w\<lparr>stderr := stderr w @ [error_message e @ [CHR 0x0A]]\<rparr>)
      | Inr npp \<Rightarrow> (Returned (), w\<lparr>global_parser := npp\<rparr>))"

subsection \<open>Import of the parser results into the state\<close>

text \<open>
  Modelled from the spec: \<open>netplan_state_import_parser_results\<close> is not in the wrapper
  file.  Section 4.3: every definition must have a non-empty identifier (an unresolved
  parent reference is flagged, not rejected, so it is no error here); a definition without
  an explicit backend gets the default of the global settings, and the fixed system
  default (taken to be the link-state service) when there is none.  On success the result
  is the new State and the cleared accumulator; on a validation error nothing is returned
  but the error, and the prior State stays as it is.
\<close>

definition system_default_backend :: NetplanBackend where
  "system_default_backend = NETPLAN_BACKEND_NETWORKD"

fun validate_defs :: "def_table \<Rightarrow> error option" where
  "validate_defs [] = None"
| "validate_defs ((k, d) # t) =
     (if netdef_id d = [] then Some (ValidationError (filename d)) else validate_defs t)"

definition resolve_backend :: "NetplanBackend \<Rightarrow> NetplanNetDefinition \<Rightarrow> NetplanNetDefinition" where
  "resolve_backend dflt d =
     (if netdef_backend d \<noteq> NETPLAN_BACKEND_NONE then d
      else if dflt \<noteq> NETPLAN_BACKEND_NONE then d\<lparr>netdef_backend := dflt\<rparr>
      else d\<lparr>netdef_backend := system_default_backend\<rparr>)"

definition netplan_state_import_parser_results ::
  "netplan_state \<Rightarrow> netplan_parser \<Rightarrow> error + (netplan_state \<times> netplan_parser)" where
  "netplan_state_import_parser_results np_state npp =
     (case validate_defs (parsed_defs npp) of
        Some e \<Rightarrow> Inl e
      | None \<Rightarrow>
          Inr (\<lparr>netdefs = map (\<lambda>(k, d). (k, resolve_backend (global_backend npp) d))
                            (parsed_defs npp),
                ovs_settings = global_ovs_settings npp,
                backend = global_backend npp\<rparr>,
               netplan_parser_reset npp))"

text \<open>
  \<^verbatim>\<open>GHashTable* netplan_finish_parse(GError** error)\<close>: when the import succeeds the
  table of the global state is returned, otherwise \<open>NULL\<close>.  \<open>Inl e\<close> is the result \<open>NULL\<close>
  with the error \<open>e\<close> set (for a caller that passed an error location).
\<close>

definition netplan_finish_parse :: "'d world \<Rightarrow> (error + def_table) \<times> 'd world" where
  "netplan_finish_parse w =
     (case netplan_state_import_parser_results (global_state w) (global_parser w) of
        Inr (st, npp) \<Rightarrow>
          (let w' = w\<lparr>global_state := st, global_parser := npp\<rparr>
           in (Inr (netdefs (global_state w')), w'))
      | Inl e \<Rightarrow> (Inl e, w))"

text \<open>
  \<^verbatim>\<open>void write_netplan_conf_full(const char* file_hint, const char* rootdir)\<close>:
  \<open>netplan_finish_parse(NULL)\<close> is called and its result dropped, then
  \<open>netplan_state_write_yaml(&global_state, file_hint, rootdir, NULL)\<close> is called and its
  result dropped.  The emitter is not in the wrapper file and is a parameter: from the
  state, the name hint and the root directory it changes the file system and says whether
  it succeeded.
\<close>

type_synonym 'd yaml_emitter = "netplan_state \<Rightarrow> string \<Rightarrow> string \<Rightarrow> 'd \<Rightarrow> bool \<times> 'd"

definition write_netplan_conf_full ::
  "'d yaml_emitter \<Rightarrow> string \<Rightarrow> string \<Rightarrow> 'd world \<Rightarrow> unit outcome \<times> 'd world" where
  "write_netplan_conf_full netplan_state_write_yaml file_hint rootdir w =
     (let w1 = snd (netplan_finish_parse w);
          w2 = w1\<lparr>disk := snd (netplan_state_write_yaml (global_state w1) file_hint rootdir
                                 (disk w1))\<rparr>
      in (Returned (), w2))"

subsection \<open>Per-definition write for the link-state backend\<close>

text \<open>
  The core operation \<open>netplan_netdef_write_networkd\<close> is not in the wrapper file and is a
  parameter.  Its result is \<open>Inl e\<close> when it returns \<open>FALSE\<close> with the error \<open>e\<close>, and
  \<open>Inr b\<close> when it returns \<open>TRUE\<close> having stored \<open>b\<close> in \<open>has_been_written\<close>.
\<close>

type_synonym 'd netdef_writer =
  "netplan_state \<Rightarrow> NetplanNetDefinition \<Rightarrow> string \<Rightarrow> 'd \<Rightarrow> (error + bool) \<times> 'd"

text \<open>
  \<^verbatim>\<open>gboolean write_networkd_conf(const NetplanNetDefinition* def, const char* rootdir)\<close>:
  on failure the message is printed and the process exits with status 1, otherwise
  \<open>has_been_written\<close> is returned.
\<close>

definition write_networkd_conf ::
  "'d netdef_writer \<Rightarrow> NetplanNetDefinition \<Rightarrow> string \<Rightarrow> 'd world \<Rightarrow> bool outcome \<times> 'd world" where
  "write_networkd_conf netplan_netdef_write_networkd netdef rootdir w =
     (case netplan_netdef_write_networkd (global_state w) netdef rootdir (disk w) of
        (Inl e, d) \<Rightarrow> (Exited 1, w\<lparr>stderr := stderr w @ [error_message e], disk := d\<rparr>)
      | (Inr has_been_written, d) \<Rightarrow> (Returned has_been_written, w\<lparr>disk := d\<rparr>))"

text \<open>
  Modelled from the spec: the Backend Dispatcher of section 4.4, which is not in the
  wrapper file.  \<open>applies\<close> holds iff the resolved backend of the definition is the target
  backend; a virtual-switch definition also applies to the virtual-switch backend.
\<close>

definition applies :: "NetplanNetDefinition \<Rightarrow> NetplanBackend \<Rightarrow> bool" where
  "applies d b =
     (netdef_backend d = b \<or> (netdef_type d = Some DEF_TYPE_VSWITCH \<and> b = NETPLAN_BACKEND_OVS))"

text \<open>
  The Backend Writer of a backend is an external collaborator and a parameter: from the
  state, the definition and the root directory it changes the file system and either
  succeeds or gives the cause of its failure (it may have written part of its output by
  then).  Section 6 of the specification lets a writer also say whether it was
  applicable; the dispatcher of section 4.4 decides that before the call, so the flag is
  left out.
\<close>

type_synonym 'd backend_writer =
  "netplan_state \<Rightarrow> NetplanNetDefinition \<Rightarrow> string \<Rightarrow> 'd \<Rightarrow> (string + unit) \<times> 'd"

text \<open>
  Modelled from the spec: \<open>write(state, definition, backend, root_dir)\<close> of section 4.4,
  which is not in the wrapper file.  The Backend Writer is called only if \<open>applies\<close> holds;
  the outcome is "written" (\<open>Inr True\<close>) when it succeeds and "not applicable"
  (\<open>Inr False\<close>) when it was not called; a failure of the writer becomes a \<open>WriteError\<close>
  with the backend, the identifier of the definition and the cause.
\<close>

definition netplan_netdef_write :: "NetplanBackend \<Rightarrow> 'd backend_writer \<Rightarrow> 'd netdef_writer" where
  "netplan_netdef_write b backend_writer st d root dk =
     (if applies d b
      then (case backend_writer st d root dk of
              (Inl cause, dk') \<Rightarrow> (Inl (WriteError b (netdef_id d) cause), dk')
            | (Inr u, dk') \<Rightarrow> (Inr True, dk'))
      else (Inr False, dk))"

subsection \<open>Finish pass\<close>

text \<open>
  The finish operations of the core (\<open>netplan_state_finish_nm_write\<close>,
  \<open>netplan_state_finish_ovs_write\<close>) are not in the wrapper file and are parameters: from
  the state and the root directory they change the file system and return a \<open>gboolean\<close>.
  The wrappers pass \<open>NULL\<close> as the error location.

  \<^verbatim>\<open>g_assert(netplan_state_finish_nm_write(&global_state, rootdir, NULL));\<close>
  When the expression is false, \<open>g_assert\<close> prints that the assertion failed, with the
  text of the expression, on standard error, and aborts.  (The source location that
  precedes the message is left out.)
\<close>

definition assertion_failed :: "string \<Rightarrow> string" where
  "assertion_failed expr = ''assertion failed: ('' @ expr @ '')'' @ [CHR 0x0A]"

type_synonym 'd finish_operation = "netplan_state \<Rightarrow> string \<Rightarrow> 'd \<Rightarrow> bool \<times> 'd"

definition write_nm_conf_finish ::
  "'d finish_operation \<Rightarrow> string \<Rightarrow> 'd world \<Rightarrow> unit outcome \<times> 'd world" where
  "write_nm_conf_finish netplan_state_finish_nm_write rootdir w =
     (case netplan_state_finish_nm_write (global_state w) rootdir (disk w) of
        (ok, d) \<Rightarrow>
          (if ok then (Returned (), w\<lparr>disk := d\<rparr>)
           else (Aborted,
                 w\<lparr>stderr := stderr w @
                      [assertion_failed
                         ''netplan_state_finish_nm_write(&global_state, rootdir, NULL)''],
                    disk := d\<rparr>)))"

definition write_ovs_conf_finish ::
  "'d finish_operation \<Rightarrow> string \<Rightarrow> 'd world \<Rightarrow> unit outcome \<times> 'd world" where
  "write_ovs_conf_finish netplan_state_finish_ovs_write rootdir w =
     (case netplan_state_finish_ovs_write (global_state w) rootdir (disk w) of
        (ok, d) \<Rightarrow>
          (if ok then (Returned (), w\<lparr>disk := d\<rparr>)
           else (Aborted,
                 w\<lparr>stderr := stderr w @
                      [assertion_failed
                         ''netplan_state_finish_ovs_write(&global_state, rootdir, NULL)''],
                    disk := d\<rparr>)))"

subsection \<open>Enablement\<close>

text \<open>The values of \<open>errno\<close> that \<open>symlink(2)\<close> documents, and their messages (\<open>%m\<close>).\<close>

datatype errno =
    EACCES | EDQUOT | EEXIST | EFAULT | EIO | ELOOP | ENAMETOOLONG | ENOENT | ENOMEM
  | ENOSPC | ENOTDIR | EPERM | EROFS

fun strerror :: "errno \<Rightarrow> string" where
  "strerror EACCES = ''Permission denied''"
| "strerror EDQUOT = ''Disk quota exceeded''"
| "strerror EEXIST = ''File exists''"
| "strerror EFAULT = ''Bad address''"
| "strerror EIO = ''Input/output error''"
| "strerror ELOOP = ''Too many levels of symbolic links''"
| "strerror ENAMETOOLONG = ''File name too long''"
| "strerror ENOENT = ''No such file or directory''"
| "strerror ENOMEM = ''Cannot allocate memory''"
| "strerror ENOSPC = ''No space left on device''"
| "strerror ENOTDIR = ''Not a directory''"
| "strerror EPERM = ''Operation not permitted''"
| "strerror EROFS = ''Read-only file system''"

text \<open>
  \<open>g_build_path\<close> of GLib with the separator \<open>G_DIR_SEPARATOR_S\<close>, as its documentation
  gives it.  Empty elements are ignored.  At the boundary between two elements the
  trailing separators of the first and the leading separators of the second are removed
  and one separator is inserted; elements that consist of separators only are otherwise
  ignored.  The result starts with the leading separators of the first non-empty element
  and ends with the trailing separators of the last one.  A single non-empty element that
  consists of separators only is the result as it is.
\<close>

definition G_DIR_SEPARATOR :: char where
  "G_DIR_SEPARATOR = CHR ''/''"

definition strip_leading :: "string \<Rightarrow> string" where
  "strip_leading s = dropWhile (\<lambda>c. c = G_DIR_SEPARATOR) s"

definition strip_trailing :: "string \<Rightarrow> string" where
  "strip_trailing s = rev (dropWhile (\<lambda>c. c = G_DIR_SEPARATOR) (rev s))"

definition leading_separators :: "string \<Rightarrow> string" where
  "leading_separators s = takeWhile (\<lambda>c. c = G_DIR_SEPARATOR) s"

definition trailing_separators :: "string \<Rightarrow> string" where
  "trailing_separators s = takeWhile (\<lambda>c. c = G_DIR_SEPARATOR) (rev s)"

fun join_elements :: "string list \<Rightarrow> string" where
  "join_elements [] = []"
| "join_elements [x] = x"
| "join_elements (x # y # ys) = x @ G_DIR_SEPARATOR # join_elements (y # ys)"

definition g_build_path :: "string \<Rightarrow> string list \<Rightarrow> string" where
  "g_build_path first rest =
     (case filter (\<lambda>e. e \<noteq> []) (first # rest) of
        [] \<Rightarrow> []
      | e # es \<Rightarrow>
          (if es = [] \<and> strip_leading e = [] then e
           else leading_separators e @
                join_elements
                  (filter (\<lambda>x. x \<noteq> [])
                     (map (\<lambda>x. strip_trailing (strip_leading x)) (e # es))) @
                trailing_separators (last (e # es))))"

text \<open>Sequencing of statements: the next one runs only if the one before returned.\<close>

definition and_then ::
  "unit outcome \<times> 'w \<Rightarrow> ('w \<Rightarrow> 'a outcome \<times> 'w) \<Rightarrow> 'a outcome \<times> 'w" where
  "and_then r f =
     (case r of
        (Returned u, w) \<Rightarrow> f w
      | (Exited n, w) \<Rightarrow> (Exited n, w)
      | (Aborted, w) \<Rightarrow> (Aborted, w))"

text \<open>
  The statement that occurs twice in \<open>enable_networkd\<close>:
  \<^verbatim>\<open>if (symlink(target, link) < 0 && errno != EEXIST) {
    g_fprintf(stderr, "failed to create enablement symlink: %m\n"); exit(1); }\<close>
  The system call is a parameter: \<open>Inl e\<close> is the result \<open>-1\<close> with \<open>errno = e\<close>, \<open>Inr d\<close>
  the result \<open>0\<close> with the new file system \<open>d\<close>.
\<close>

type_synonym 'd symlink_call = "string \<Rightarrow> string \<Rightarrow> 'd \<Rightarrow> errno + 'd"

definition symlink_or_exit ::
  "'d symlink_call \<Rightarrow> string \<Rightarrow> string \<Rightarrow> 'd world \<Rightarrow> unit outcome \<times> 'd world" where
  "symlink_or_exit symlink target link w =
     (case symlink target link (disk w) of
        Inr d \<Rightarrow> (Returned (), w\<lparr>disk := d\<rparr>)
      | Inl e \<Rightarrow>
          (if e \<noteq> EEXIST
           then (Exited 1,
                 w\<lparr>stderr := stderr w @
                    [''failed to create enablement symlink: '' @ strerror e @ [CHR 0x0A]]\<rparr>)
           else (Returned (), w)))"

text \<open>
  \<^verbatim>\<open>void enable_networkd(const char* generator_dir)\<close>.  \<open>safe_mkdir_p_dir\<close> is not in the
  wrapper file and is a parameter: it creates the directory of the path it is given, and
  may itself end the process.  \<open>g_debug\<close> is logging and is left out.
\<close>

definition enable_networkd ::
  "(string \<Rightarrow> 'd world \<Rightarrow> unit outcome \<times> 'd world) \<Rightarrow> 'd symlink_call \<Rightarrow> string \<Rightarrow>
   'd world \<Rightarrow> unit outcome \<times> 'd world" where
  "enable_networkd safe_mkdir_p_dir symlink generator_dir w =
     (let link = g_build_path generator_dir
                   [''multi-user.target.wants'', ''systemd-networkd.service''];
          link2 = g_build_path generator_dir
                    [''network-online.target.wants'', ''systemd-networkd-wait-online.service'']
      in and_then (safe_mkdir_p_dir link w) (\<lambda>w.
         and_then (symlink_or_exit symlink ''../systemd-networkd.service'' link w) (\<lambda>w.
         and_then (safe_mkdir_p_dir link2 w) (\<lambda>w.
         symlink_or_exit symlink ''/lib/systemd/system/systemd-networkd-wait-online.service''
           link2 w))))"

text \<open>The two paths \<open>link\<close> and \<open>link2\<close> of \<open>enable_networkd\<close>, for the statements below.\<close>

abbreviation networkd_link :: "string \<Rightarrow> string" where
  "networkd_link generator_dir \<equiv>
     g_build_path generator_dir [''multi-user.target.wants'', ''systemd-networkd.service'']"

abbreviation wait_online_link :: "string \<Rightarrow> string" where
  "wait_online_link generator_dir \<equiv>
     g_build_path generator_dir
       [''network-online.target.wants'', ''systemd-networkd-wait-online.service'']"

subsection \<open>Concrete inputs\<close>

text \<open>
  The inputs at which the theorems below are instantiated: a process that has loaded
  nothing, the two fragments of the merge scenario of the specification with a reader
  that serves them, a few definitions, and small stand-ins for the external collaborators
  (an emitter and a backend writer that record what they write, a writer that refuses, a
  table of symbolic links).
\<close>

definition initial_world :: "'d \<Rightarrow> 'd world" where
  "initial_world d =
     \<lparr>global_state = \<lparr>netdefs = [], ovs_settings = [], backend = NETPLAN_BACKEND_NONE\<rparr>,
      global_parser = \<lparr>parsed_defs = [], global_ovs_settings = [],
                       global_backend = NETPLAN_BACKEND_NONE\<rparr>,
      stderr = [], disk = d\<rparr>"

definition fragment_A :: NetplanNetDefinition where
  "fragment_A =
     \<lparr>netdef_id = ''eth0'', netdef_type = Some DEF_TYPE_ETHERNET, filename = [],
      netdef_backend = NETPLAN_BACKEND_NONE, dhcp4 = None, addresses = [''10.0.0.1''],
      nameservers = [], routes = [], passthrough = []\<rparr>"

definition fragment_B :: NetplanNetDefinition where
  "fragment_B =
     \<lparr>netdef_id = ''eth0'', netdef_type = None, filename = [],
      netdef_backend = NETPLAN_BACKEND_NM, dhcp4 = None, addresses = [''10.0.0.2''],
      nameservers = [], routes = [], passthrough = []\<rparr>"

definition scenario_reader :: document_reader where
  "scenario_reader p =
     (if p = ''a.yaml'' then Inr [fragment_A]
      else if p = ''b.yaml'' then Inr [fragment_B]
      else Inl (ReadError p))"

definition eth0_def :: NetplanNetDefinition where
  "eth0_def =
     \<lparr>netdef_id = ''eth0'', netdef_type = Some DEF_TYPE_ETHERNET, filename = ''a.yaml'',
      netdef_backend = NETPLAN_BACKEND_NETWORKD, dhcp4 = Some True, addresses = [''10.0.0.1''],
      nameservers = [], routes = [], passthrough = []\<rparr>"

definition wlan0_def :: NetplanNetDefinition where
  "wlan0_def =
     \<lparr>netdef_id = ''wlan0'', netdef_type = Some DEF_TYPE_WIFI, filename = ''a.yaml'',
      netdef_backend = NETPLAN_BACKEND_NM, dhcp4 = Some True, addresses = [],
      nameservers = [], routes = [], passthrough = []\<rparr>"

definition nameless_def :: NetplanNetDefinition where
  "nameless_def =
     \<lparr>netdef_id = [], netdef_type = Some DEF_TYPE_BRIDGE, filename = ''bad.yaml'',
      netdef_backend = NETPLAN_BACKEND_NONE, dhcp4 = None, addresses = [],
      nameservers = [], routes = [], passthrough = []\<rparr>"

text \<open>
  A process whose State holds \<open>eth0\<close> from an earlier import and whose accumulator holds
  a definition without identifier.
\<close>

definition failing_world :: "'d \<Rightarrow> 'd world" where
  "failing_world d =
     \<lparr>global_state = \<lparr>netdefs = [(''eth0'', eth0_def)], ovs_settings = [],
                      backend = NETPLAN_BACKEND_NONE\<rparr>,
      global_parser = \<lparr>parsed_defs = [([], nameless_def)], global_ovs_settings = [],
                       global_backend = NETPLAN_BACKEND_NONE\<rparr>,
      stderr = [], disk = d\<rparr>"

definition recording_emitter :: "(string \<times> string \<times> def_table) list yaml_emitter" where
  "recording_emitter st file_hint rootdir d = (True, d @ [(rootdir, file_hint, netdefs st)])"

definition file_writer :: "string list backend_writer" where
  "file_writer st d root dk = (Inr (), dk @ [root @ ''/run/systemd/network/'' @ netdef_id d])"

definition refusing_writer :: "string list backend_writer" where
  "refusing_writer st d root dk = (Inl ''unsupported'', dk)"

text \<open>
  A file system that is a table of symbolic links (path, target): creating a link at a
  path that has one fails with \<open>EEXIST\<close>; everything under \<open>/ro/\<close> is read-only.
\<close>

definition mkdir_ok ::
  "string \<Rightarrow> (string \<times> string) list world \<Rightarrow> unit outcome \<times> (string \<times> string) list world" where
  "mkdir_ok path w = (Returned (), w)"

definition table_symlink :: "(string \<times> string) list symlink_call" where
  "table_symlink target link d =
     (if link \<in> fst ` set d then Inl EEXIST
      else if take 4 link = ''/ro/'' then Inl EROFS
      else Inr (d @ [(link, target)]))"

text \<open>The two enablement links under the generator directory \<open>/run/gen\<close>.\<close>

definition enabled_links :: "(string \<times> string) list" where
  "enabled_links =
     [(''/run/gen/multi-user.target.wants/systemd-networkd.service'',
       ''../systemd-networkd.service''),
      (''/run/gen/network-online.target.wants/systemd-networkd-wait-online.service'',
       ''/lib/systemd/system/systemd-networkd-wait-online.service'')]"

section \<open>Properties\<close>

subsection \<open>Reset\<close>

text \<open>
  Claim C10.  For every global state, \<open>netplan_clear_netdefs\<close> resets both the global
  State and the global parser accumulator, so that both are empty afterwards, leaves
  standard error and the file system alone, and returns the number of network definitions
  the State held immediately before the reset.
\<close>

theorem netplan_clear_netdefs_resets_both:
  "fst (netplan_clear_netdefs w) = length (netdefs (global_state w)) \<and>
   netdefs (global_state (snd (netplan_clear_netdefs w))) = [] \<and>
   ovs_settings (global_state (snd (netplan_clear_netdefs w))) = [] \<and>
   backend (global_state (snd (netplan_clear_netdefs w))) = NETPLAN_BACKEND_NONE \<and>
   parsed_defs (global_parser (snd (netplan_clear_netdefs w))) = [] \<and>
   global_ovs_settings (global_parser (snd (netplan_clear_netdefs w))) = [] \<and>
   global_backend (global_parser (snd (netplan_clear_netdefs w))) = NETPLAN_BACKEND_NONE \<and>
   stderr (snd (netplan_clear_netdefs w)) = stderr w \<and>
   disk (snd (netplan_clear_netdefs w)) = disk w"
  by (simp add: netplan_clear_netdefs_def netplan_state_reset_def netplan_parser_reset_def
      netplan_state_get_netdefs_size_def)

text \<open>After the reset the process is the one that has loaded nothing.\<close>

lemma netplan_clear_netdefs_initial:
  "snd (netplan_clear_netdefs w) = (initial_world (disk w))\<lparr>stderr := stderr w\<rparr>"
  by (simp add: netplan_clear_netdefs_def netplan_state_reset_def netplan_parser_reset_def
      initial_world_def)

subsection \<open>Merging fragments\<close>

text \<open>
  The union of two lists keeps the first occurrence of every element of their
  concatenation, in order: it is the reverse of \<open>remdups\<close> (which keeps last occurrences)
  on the reversed concatenation.
\<close>

lemma remdups_snoc: "remdups (xs @ [y]) = filter (\<lambda>x. x \<noteq> y) (remdups xs) @ [y]"
  by (induction xs) auto

lemma first_seen_Cons:
  "rev (remdups (rev (y # ys))) = y # filter (\<lambda>x. x \<noteq> y) (rev (remdups (rev ys)))"
  by (simp add: remdups_snoc rev_filter)

lemma add_unique_first_seen:
  "add_unique acc zs = acc @ filter (\<lambda>z. z \<notin> set acc) (rev (remdups (rev zs)))"
proof (induction zs arbitrary: acc)
  case Nil
  then show ?case by simp
next
  case (Cons y ys)
  show ?case
  proof (cases "y \<in> set acc")
    case True
    have "filter (\<lambda>z. z \<notin> set acc) (filter (\<lambda>x. x \<noteq> y) (rev (remdups (rev ys))))
          = filter (\<lambda>z. z \<notin> set acc) (rev (remdups (rev ys)))"
      using True by (auto intro: filter_cong)
    with True Cons.IH [of acc] show ?thesis
      by (simp only: add_unique.simps first_seen_Cons if_True filter.simps) simp
  next
    case False
    have "filter (\<lambda>z. z \<notin> set (acc @ [y])) (rev (remdups (rev ys)))
          = filter (\<lambda>z. z \<notin> set acc) (filter (\<lambda>x. x \<noteq> y) (rev (remdups (rev ys))))"
      by (auto intro: filter_cong)
    with False Cons.IH [of "acc @ [y]"] show ?thesis
      by (simp only: add_unique.simps first_seen_Cons if_False filter.simps) simp
  qed
qed

lemma add_unique_append: "add_unique acc (xs @ ys) = add_unique (add_unique acc xs) ys"
  by (induction xs arbitrary: acc) simp_all

lemma list_union_first_seen: "list_union xs ys = rev (remdups (rev (xs @ ys)))"
  unfolding list_union_def
  using add_unique_first_seen [of "[]" "xs @ ys"] add_unique_append [of "[]" xs ys]
  by simp

lemma distinct_list_union: "distinct (list_union xs ys)"
  by (simp add: list_union_first_seen)

lemma set_list_union: "set (list_union xs ys) = set xs \<union> set ys"
  by (auto simp: list_union_first_seen)

lemma list_union_keeps_first: "distinct xs \<Longrightarrow> list_union xs ys = xs @ list_union [] (filter (\<lambda>y. y \<notin> set xs) ys)"
proof -
  assume d: "distinct xs"
  have a: "add_unique [] xs = xs"
    using d add_unique_first_seen [of "[]" xs] by (simp add: distinct_remdups_id)
  have b: "add_unique acc (filter (\<lambda>y. y \<notin> set xs) ys) = add_unique acc ys"
    if "set xs \<subseteq> set acc" for acc
    using that
  proof (induction ys arbitrary: acc)
    case Nil
    then show ?case by simp
  next
    case (Cons y ys)
    then show ?case by (auto simp: subset_iff)
  qed
  have c: "add_unique (xs @ acc) zs = xs @ add_unique acc zs"
    if "set zs \<inter> set xs = {}" for acc zs
    using that by (induction zs arbitrary: acc) auto
  have "add_unique xs ys = add_unique xs (filter (\<lambda>y. y \<notin> set xs) ys)"
    using b [of xs] by simp
  also have "\<dots> = xs @ add_unique [] (filter (\<lambda>y. y \<notin> set xs) ys)"
    using c [of "filter (\<lambda>y. y \<notin> set xs) ys" "[]"] by auto
  finally show ?thesis by (simp add: list_union_def a)
qed

lemma map_of_table_put: "map_of (table_put k v t) k' = (if k' = k then Some v else map_of t k')"
  by (induction t) auto

lemma merge_fragment_fresh:
  "map_of tbl (netdef_id f) = None \<Longrightarrow> merge_fragment tbl f = Inr (tbl @ [(netdef_id f, f)])"
  by (simp add: merge_fragment_def)

lemma merge_fragment_known:
  "map_of tbl (netdef_id f) = Some old \<Longrightarrow> \<not> kind_conflict (netdef_type old) (netdef_type f) \<Longrightarrow>
   merge_fragment tbl f = Inr (table_put (netdef_id f) (projr (merge_netdef old f)) tbl)"
  by (simp add: merge_fragment_def merge_netdef_def)

text \<open>Two fragments of conflicting kinds for one identifier are a \<open>ConflictError\<close>.\<close>

lemma merge_fragment_conflict:
  "map_of tbl (netdef_id f) = Some old \<Longrightarrow> netdef_type old = Some a \<Longrightarrow>
   netdef_type f = Some b \<Longrightarrow> a \<noteq> b \<Longrightarrow>
   merge_fragment tbl f = Inl (ConflictError (netdef_id old))"
  by (simp add: merge_fragment_def merge_netdef_def kind_conflict_def)

text \<open>
  Two documents of one fragment each, \<open>A\<close> and \<open>B\<close>, for the same identifier and of
  compatible kinds, are loaded one after the other through \<open>netplan_parse_yaml\<close> into an
  accumulator that does not know the identifier yet.  Both loads succeed, and the
  accumulator then maps the identifier to the definition in which every scalar field that
  \<open>B\<close> sets has the value of \<open>B\<close> (the others keep the value of \<open>A\<close>), and every list
  field holds the elements of \<open>A\<close>'s list followed by \<open>B\<close>'s, each element once, at the
  place of its first occurrence.
\<close>

lemma single_fragment_documents_merge:
  assumes first: "reader fa = Inr [A]"
    and second: "reader fb = Inr [B]"
    and same: "netdef_id B = netdef_id A"
    and kinds: "\<not> kind_conflict (netdef_type A) (netdef_type B)"
    and fresh: "map_of (parsed_defs (global_parser w)) (netdef_id A) = None"
  shows "fst (netplan_parse_yaml reader fa w) = Inr () \<and>
         fst (netplan_parse_yaml reader fb (snd (netplan_parse_yaml reader fa w))) = Inr () \<and>
         map_of (parsed_defs (global_parser
           (snd (netplan_parse_yaml reader fb (snd (netplan_parse_yaml reader fa w))))))
           (netdef_id A) =
         Some \<lparr>netdef_id = netdef_id A,
               netdef_type = (case netdef_type B of None \<Rightarrow> netdef_type A | Some k \<Rightarrow> Some k),
               filename = fb,
               netdef_backend = (if netdef_backend B = NETPLAN_BACKEND_NONE then netdef_backend A
                                 else netdef_backend B),
               dhcp4 = (case dhcp4 B of None \<Rightarrow> dhcp4 A | Some f \<Rightarrow> Some f),
               addresses = rev (remdups (rev (addresses A @ addresses B))),
               nameservers = rev (remdups (rev (nameservers A @ nameservers B))),
               routes = rev (remdups (rev (routes A @ routes B))),
               passthrough = merge_map (passthrough A) (passthrough B)\<rparr>"
proof -
  let ?A = "A\<lparr>filename := fa\<rparr>" and ?B = "B\<lparr>filename := fb\<rparr>"
  let ?t = "parsed_defs (global_parser w)"
  have l1: "netplan_parser_load_yaml reader (global_parser w) fa =
            Inr ((global_parser w)\<lparr>parsed_defs := ?t @ [(netdef_id A, ?A)]\<rparr>)"
    using first fresh merge_fragment_fresh [of ?t ?A]
    by (simp add: netplan_parser_load_yaml_def)
  let ?w1 = "w\<lparr>global_parser := (global_parser w)\<lparr>parsed_defs := ?t @ [(netdef_id A, ?A)]\<rparr>\<rparr>"
  have s1: "netplan_parse_yaml reader fa w = (Inr (), ?w1)"
    using l1 by (simp add: netplan_parse_yaml_def)
  have look: "map_of (?t @ [(netdef_id A, ?A)]) (netdef_id ?B) = Some ?A"
    using fresh same by (simp add: map_add_Some_iff)
  have kinds': "\<not> kind_conflict (netdef_type ?A) (netdef_type ?B)"
    using kinds by simp
  have m: "merge_fragment (?t @ [(netdef_id A, ?A)]) ?B =
           Inr (table_put (netdef_id ?B) (projr (merge_netdef ?A ?B)) (?t @ [(netdef_id A, ?A)]))"
    by (rule merge_fragment_known [OF look kinds'])
  have l2: "netplan_parser_load_yaml reader (global_parser ?w1) fb =
            Inr ((global_parser ?w1)\<lparr>parsed_defs :=
              table_put (netdef_id A) (projr (merge_netdef ?A ?B)) (?t @ [(netdef_id A, ?A)])\<rparr>)"
    using second m same by (simp add: netplan_parser_load_yaml_def)
  have s2: "netplan_parse_yaml reader fb ?w1 =
            (Inr (), ?w1\<lparr>global_parser := (global_parser ?w1)\<lparr>parsed_defs :=
              table_put (netdef_id A) (projr (merge_netdef ?A ?B)) (?t @ [(netdef_id A, ?A)])\<rparr>\<rparr>)"
    using l2 by (simp add: netplan_parse_yaml_def)
  have d: "projr (merge_netdef ?A ?B) =
         \<lparr>netdef_id = netdef_id A,
               netdef_type = (case netdef_type B of None \<Rightarrow> netdef_type A | Some k \<Rightarrow> Some k),
               filename = fb,
               netdef_backend = (if netdef_backend B = NETPLAN_BACKEND_NONE then netdef_backend A
                                 else netdef_backend B),
               dhcp4 = (case dhcp4 B of None \<Rightarrow> dhcp4 A | Some f \<Rightarrow> Some f),
               addresses = rev (remdups (rev (addresses A @ addresses B))),
               nameservers = rev (remdups (rev (nameservers A @ nameservers B))),
               routes = rev (remdups (rev (routes A @ routes B))),
               passthrough = merge_map (passthrough A) (passthrough B)\<rparr>"
    using kinds by (simp add: merge_netdef_def list_union_first_seen split: option.split)
  have r1: "snd (netplan_parse_yaml reader fa w) = ?w1"
    by (simp add: s1)
  show ?thesis
    unfolding r1 s2 using s1 by (simp add: map_of_table_put d)
qed

text \<open>The merge scenario of the specification.\<close>

lemma scenario_eth0_merge:
  "fst (netplan_parse_yaml scenario_reader ''a.yaml'' (initial_world ())) = Inr () \<and>
   fst (netplan_parse_yaml scenario_reader ''b.yaml''
          (snd (netplan_parse_yaml scenario_reader ''a.yaml'' (initial_world ())))) = Inr () \<and>
   map_option addresses (map_of (parsed_defs (global_parser
     (snd (netplan_parse_yaml scenario_reader ''b.yaml''
        (snd (netplan_parse_yaml scenario_reader ''a.yaml'' (initial_world ())))))))
     ''eth0'') = Some [''10.0.0.1'', ''10.0.0.2''] \<and>
   map_option netdef_backend (map_of (parsed_defs (global_parser
     (snd (netplan_parse_yaml scenario_reader ''b.yaml''
        (snd (netplan_parse_yaml scenario_reader ''a.yaml'' (initial_world ())))))))
     ''eth0'') = Some NETPLAN_BACKEND_NM"
  using single_fragment_documents_merge
    [of scenario_reader "''a.yaml''" fragment_A "''b.yaml''" fragment_B "initial_world ()"]
  by (simp add: scenario_reader_def fragment_A_def fragment_B_def initial_world_def
      kind_conflict_def)

subsection \<open>Import\<close>

lemma validate_defs_Some:
  "validate_defs t = Some e \<Longrightarrow>
   \<exists>k d. (k, d) \<in> set t \<and> netdef_id d = [] \<and> e = ValidationError (filename d)"
proof (induction t)
  case Nil
  then show ?case by simp
next
  case (Cons p t)
  obtain k d where p: "p = (k, d)" by (cases p)
  show ?case
  proof (cases "netdef_id d = []")
    case True
    with Cons.prems p show ?thesis by auto
  next
    case False
    with Cons.prems p have "validate_defs t = Some e" by simp
    from Cons.IH [OF this] show ?thesis by auto
  qed
qed

lemma validate_defs_None: "(validate_defs t = None) = (\<forall>(k, d) \<in> set t. netdef_id d \<noteq> [])"
  by (induction t) (auto split: if_splits)

text \<open>
  Claim C3.  When the accumulator holds a definition that fails validation (one without
  identifier), \<open>netplan_finish_parse\<close> returns \<open>NULL\<close> with a validation error set, and the
  process is exactly as before the call: the State imported earlier is unchanged (no
  definition of the failing accumulator is in it), and so is the accumulator.
\<close>

theorem failed_import_leaves_state:
  assumes "(k, d) \<in> set (parsed_defs (global_parser w))" and "netdef_id d = []"
  shows "(\<exists>f. fst (netplan_finish_parse w) = Inl (ValidationError f)) \<and>
         snd (netplan_finish_parse w) = w \<and>
         global_state (snd (netplan_finish_parse w)) = global_state w"
proof -
  from assms have "validate_defs (parsed_defs (global_parser w)) \<noteq> None"
    by (auto simp: validate_defs_None)
  then obtain e where e: "validate_defs (parsed_defs (global_parser w)) = Some e"
    by auto
  from validate_defs_Some [OF e] obtain f where "e = ValidationError f"
    by auto
  with e show ?thesis
    by (simp add: netplan_finish_parse_def netplan_state_import_parser_results_def)
qed

theorem failed_import_leaves_state_witness:
  "fst (netplan_finish_parse (failing_world ())) = Inl (ValidationError ''bad.yaml'') \<and>
   snd (netplan_finish_parse (failing_world ())) = failing_world () \<and>
   netdefs (global_state (snd (netplan_finish_parse (failing_world ())))) =
     [(''eth0'', eth0_def)]"
  using failed_import_leaves_state [of "[]" nameless_def "failing_world ()"]
  by (simp add: failing_world_def nameless_def_def netplan_finish_parse_def
      netplan_state_import_parser_results_def)

subsection \<open>Errors at the legacy boundary\<close>

text \<open>
  A failed load in \<open>process_input_file\<close> is printed and ends the process with status 1.
  \<open>write_netplan_conf_full\<close>, in contrast, returns normally and prints nothing, on every
  input.
\<close>

lemma process_input_file_reports:
  "netplan_parser_load_yaml reader (global_parser w) f = Inl e \<Longrightarrow>
   process_input_file reader f w =
     (Exited 1, w\<lparr>stderr := stderr w @ [error_message e @ [CHR 0x0A]]\<rparr>)"
  by (simp add: process_input_file_def)

lemma write_netplan_conf_full_always_returns:
  "fst (write_netplan_conf_full emit file_hint rootdir w) = Returned () \<and>
   stderr (snd (write_netplan_conf_full emit file_hint rootdir w)) = stderr w"
  by (simp add: write_netplan_conf_full_def netplan_finish_parse_def Let_def
      split: sum.split prod.split)

text \<open>
  Claim C5, at the input where the code departs from it.  The accumulator holds a
  definition without identifier, so the import inside \<open>write_netplan_conf_full\<close> fails
  with a validation error.  The wrapper drops that result: it prints nothing, does not
  end the process, returns normally, and the emitter has been run on the State of the
  earlier import.
\<close>

theorem write_netplan_conf_full_drops_import_error:
  "fst (netplan_finish_parse (failing_world [])) = Inl (ValidationError ''bad.yaml'') \<and>
   write_netplan_conf_full recording_emitter ''out.yaml'' ''/tmp/root'' (failing_world []) =
     (Returned (),
      (failing_world [])\<lparr>disk := [(''/tmp/root'', ''out.yaml'', [(''eth0'', eth0_def)])]\<rparr>)"
  by (simp add: write_netplan_conf_full_def netplan_finish_parse_def
      netplan_state_import_parser_results_def failing_world_def nameless_def_def
      recording_emitter_def)

subsection \<open>Write for the link-state backend\<close>

text \<open>
  For the link-state backend a definition applies iff its resolved backend is that
  backend.
\<close>

lemma applies_networkd:
  "applies d NETPLAN_BACKEND_NETWORKD = (netdef_backend d = NETPLAN_BACKEND_NETWORKD)"
  by (simp add: applies_def)

lemma netplan_netdef_write_not_applicable:
  "\<not> applies d b \<Longrightarrow> netplan_netdef_write b backend_writer st d root dk = (Inr False, dk)"
  by (simp add: netplan_netdef_write_def)

text \<open>
  Claim C4 as stated fails: \<open>eth0\<close> is routed to the link-state backend, so it applies,
  but its Backend Writer refuses it; the write reports the error, and
  \<open>write_networkd_conf\<close> prints it and ends the process with status 1 instead of returning
  true.
\<close>

theorem write_networkd_conf_exits_on_applicable:
  "applies eth0_def NETPLAN_BACKEND_NETWORKD \<and>
   write_networkd_conf (netplan_netdef_write NETPLAN_BACKEND_NETWORKD refusing_writer)
     eth0_def ''/'' (initial_world []) =
     (Exited 1,
      (initial_world [])\<lparr>stderr := [''cannot write definition eth0: unsupported'']\<rparr>) \<and>
   fst (write_networkd_conf (netplan_netdef_write NETPLAN_BACKEND_NETWORKD refusing_writer)
          eth0_def ''/'' (initial_world [])) \<noteq> Returned True"
  by (simp add: write_networkd_conf_def netplan_netdef_write_def applies_def refusing_writer_def
      eth0_def_def initial_world_def)

text \<open>
  Claim C4, amended.  For every definition \<open>d\<close>, every Backend Writer, root directory and
  process, with \<open>write_networkd_conf\<close> on the write operation of the link-state backend:

  \<^item> \<open>d\<close> applies to the link-state backend iff its resolved backend is that backend.
  \<^item> If \<open>d\<close> does not apply, the wrapper returns false and the process, with its file
    system and standard error, is as before; the Backend Writer is not called: with any
    other writer \<open>other\<close> in its place the result is the same.
  \<^item> If \<open>d\<close> applies and the Backend Writer succeeds, the wrapper returns true, and the
    file system is the one the writer left.
  \<^item> If \<open>d\<close> applies and the Backend Writer fails, the wrapper prints the message of the
    write error on standard error and ends the process with status 1; it does not return.
  \<^item> So whenever the wrapper returns, it returns true if and only if \<open>d\<close> applies.
\<close>

theorem write_networkd_conf_outcome:
  "(applies d NETPLAN_BACKEND_NETWORKD \<longleftrightarrow> netdef_backend d = NETPLAN_BACKEND_NETWORKD) \<and>
   (\<not> applies d NETPLAN_BACKEND_NETWORKD \<longrightarrow>
      write_networkd_conf (netplan_netdef_write NETPLAN_BACKEND_NETWORKD writer) d root w =
        (Returned False, w) \<and>
      write_networkd_conf (netplan_netdef_write NETPLAN_BACKEND_NETWORKD other) d root w =
        write_networkd_conf (netplan_netdef_write NETPLAN_BACKEND_NETWORKD writer) d root w) \<and>
   (applies d NETPLAN_BACKEND_NETWORKD \<longrightarrow>
      writer (global_state w) d root (disk w) = (Inr (), dk) \<longrightarrow>
      write_networkd_conf (netplan_netdef_write NETPLAN_BACKEND_NETWORKD writer) d root w =
        (Returned True, w\<lparr>disk := dk\<rparr>)) \<and>
   (applies d NETPLAN_BACKEND_NETWORKD \<longrightarrow>
      writer (global_state w) d root (disk w) = (Inl cause, dk) \<longrightarrow>
      write_networkd_conf (netplan_netdef_write NETPLAN_BACKEND_NETWORKD writer) d root w =
        (Exited 1,
         w\<lparr>stderr := stderr w @
              [error_message (WriteError NETPLAN_BACKEND_NETWORKD (netdef_id d) cause)],
           disk := dk\<rparr>)) \<and>
   (fst (write_networkd_conf (netplan_netdef_write NETPLAN_BACKEND_NETWORKD writer) d root w) =
      Returned b \<longrightarrow>
      (b \<longleftrightarrow> applies d NETPLAN_BACKEND_NETWORKD))"
proof -
  have not_applicable:
    "write_networkd_conf (netplan_netdef_write NETPLAN_BACKEND_NETWORKD wr) d root w =
       (Returned False, w)"
    if "\<not> applies d NETPLAN_BACKEND_NETWORKD" for wr :: "'a backend_writer"
    using that by (simp add: write_networkd_conf_def netplan_netdef_write_not_applicable)
  have written:
    "write_networkd_conf (netplan_netdef_write NETPLAN_BACKEND_NETWORKD writer) d root w =
       (Returned True, w\<lparr>disk := dk\<rparr>)"
    if "applies d NETPLAN_BACKEND_NETWORKD"
      and "writer (global_state w) d root (disk w) = (Inr (), dk)"
    using that by (simp add: write_networkd_conf_def netplan_netdef_write_def)
  have failed:
    "write_networkd_conf (netplan_netdef_write NETPLAN_BACKEND_NETWORKD writer) d root w =
       (Exited 1,
        w\<lparr>stderr := stderr w @
             [error_message (WriteError NETPLAN_BACKEND_NETWORKD (netdef_id d) cause)],
          disk := dk\<rparr>)"
    if "applies d NETPLAN_BACKEND_NETWORKD"
      and "writer (global_state w) d root (disk w) = (Inl cause, dk)"
    using that by (simp add: write_networkd_conf_def netplan_netdef_write_def)
  have returned:
    "b = applies d NETPLAN_BACKEND_NETWORKD"
    if r: "fst (write_networkd_conf (netplan_netdef_write NETPLAN_BACKEND_NETWORKD writer)
                  d root w) = Returned b"
  proof (cases "applies d NETPLAN_BACKEND_NETWORKD")
    case False
    with r not_applicable [of writer] show ?thesis by simp
  next
    case True
    obtain res dk' where res: "writer (global_state w) d root (disk w) = (res, dk')"
      by (cases "writer (global_state w) d root (disk w)")
    show ?thesis
    proof (cases res)
      case (Inl c)
      with True res r show ?thesis
        by (simp add: write_networkd_conf_def netplan_netdef_write_def)
    next
      case (Inr u)
      with True res r show ?thesis
        by (simp add: write_networkd_conf_def netplan_netdef_write_def)
    qed
  qed
  show ?thesis
  proof (intro conjI impI)
    show "applies d NETPLAN_BACKEND_NETWORKD \<longleftrightarrow>
          netdef_backend d = NETPLAN_BACKEND_NETWORKD"
      by (rule applies_networkd)
  next
    assume "\<not> applies d NETPLAN_BACKEND_NETWORKD"
    then show "write_networkd_conf (netplan_netdef_write NETPLAN_BACKEND_NETWORKD writer)
                 d root w = (Returned False, w)"
      by (rule not_applicable)
  next
    assume n: "\<not> applies d NETPLAN_BACKEND_NETWORKD"
    show "write_networkd_conf (netplan_netdef_write NETPLAN_BACKEND_NETWORKD other) d root w =
          write_networkd_conf (netplan_netdef_write NETPLAN_BACKEND_NETWORKD writer) d root w"
      by (simp only: not_applicable [OF n])
  next
    assume "applies d NETPLAN_BACKEND_NETWORKD"
      and "writer (global_state w) d root (disk w) = (Inr (), dk)"
    then show "write_networkd_conf (netplan_netdef_write NETPLAN_BACKEND_NETWORKD writer)
                 d root w = (Returned True, w\<lparr>disk := dk\<rparr>)"
      by (rule written)
  next
    assume "applies d NETPLAN_BACKEND_NETWORKD"
      and "writer (global_state w) d root (disk w) = (Inl cause, dk)"
    then show "write_networkd_conf (netplan_netdef_write NETPLAN_BACKEND_NETWORKD writer)
                 d root w =
               (Exited 1,
                w\<lparr>stderr := stderr w @
                     [error_message (WriteError NETPLAN_BACKEND_NETWORKD (netdef_id d) cause)],
                  disk := dk\<rparr>)"
      by (rule failed)
  next
    assume "fst (write_networkd_conf (netplan_netdef_write NETPLAN_BACKEND_NETWORKD writer)
                   d root w) = Returned b"
    then show "b \<longleftrightarrow> applies d NETPLAN_BACKEND_NETWORKD"
      by (rule returned)
  qed
qed

theorem write_networkd_conf_outcome_witness:
  "write_networkd_conf (netplan_netdef_write NETPLAN_BACKEND_NETWORKD file_writer)
     wlan0_def ''/'' (initial_world []) = (Returned False, initial_world []) \<and>
   write_networkd_conf (netplan_netdef_write NETPLAN_BACKEND_NETWORKD refusing_writer)
     wlan0_def ''/'' (initial_world []) = (Returned False, initial_world []) \<and>
   write_networkd_conf (netplan_netdef_write NETPLAN_BACKEND_NETWORKD file_writer)
     eth0_def ''/'' (initial_world []) =
     (Returned True, (initial_world [])\<lparr>disk := [''//run/systemd/network/eth0'']\<rparr>) \<and>
   write_networkd_conf (netplan_netdef_write NETPLAN_BACKEND_NETWORKD refusing_writer)
     eth0_def ''/'' (initial_world []) =
     (Exited 1,
      (initial_world [])\<lparr>stderr := [''cannot write definition eth0: unsupported'']\<rparr>)"
proof -
  have wlan0: "\<not> applies wlan0_def NETPLAN_BACKEND_NETWORKD"
    by (simp add: applies_def wlan0_def_def)
  have eth0: "applies eth0_def NETPLAN_BACKEND_NETWORKD"
    by (simp add: applies_def eth0_def_def)
  have a: "write_networkd_conf (netplan_netdef_write NETPLAN_BACKEND_NETWORKD file_writer)
     wlan0_def ''/'' (initial_world []) = (Returned False, initial_world [])"
    using write_networkd_conf_outcome
      [where d = wlan0_def and writer = file_writer and root = "''/''"
         and w = "initial_world []"] wlan0
    by simp
  have b: "write_networkd_conf (netplan_netdef_write NETPLAN_BACKEND_NETWORKD refusing_writer)
     wlan0_def ''/'' (initial_world []) = (Returned False, initial_world [])"
    using write_networkd_conf_outcome
      [where d = wlan0_def and writer = file_writer and other = refusing_writer
         and root = "''/''" and w = "initial_world []"] wlan0
    by simp
  have c: "write_networkd_conf (netplan_netdef_write NETPLAN_BACKEND_NETWORKD file_writer)
     eth0_def ''/'' (initial_world []) =
     (Returned True, (initial_world [])\<lparr>disk := [''//run/systemd/network/eth0'']\<rparr>)"
    using write_networkd_conf_outcome
      [where d = eth0_def and writer = file_writer and root = "''/''"
         and w = "initial_world []" and dk = "[''//run/systemd/network/eth0'']"] eth0
    by (simp add: file_writer_def initial_world_def eth0_def_def)
  have d: "write_networkd_conf (netplan_netdef_write NETPLAN_BACKEND_NETWORKD refusing_writer)
     eth0_def ''/'' (initial_world []) =
     (Exited 1,
      (initial_world [])\<lparr>stderr := [''cannot write definition eth0: unsupported'']\<rparr>)"
    using write_networkd_conf_outcome
      [where d = eth0_def and writer = refusing_writer and root = "''/''"
         and w = "initial_world []" and dk = "[]" and cause = "''unsupported''"] eth0
    by (simp add: refusing_writer_def initial_world_def eth0_def_def)
  from a b c d show ?thesis by simp
qed

subsection \<open>Finish pass\<close>

text \<open>
  For every finish operation of the core, every process and root directory:
  \<open>write_nm_conf_finish\<close> and \<open>write_ovs_conf_finish\<close> never end the process with an exit
  status; they return, printing nothing, exactly when the finish operation reports
  success, and print the failed assertion and abort exactly when it reports failure.  The
  State and the accumulator are untouched and the file system is the one the finish
  operation left.
\<close>

lemma write_nm_conf_finish_outcome:
  "write_nm_conf_finish fin rootdir w =
     (if fst (fin (global_state w) rootdir (disk w))
      then (Returned (), w\<lparr>disk := snd (fin (global_state w) rootdir (disk w))\<rparr>)
      else (Aborted,
            w\<lparr>stderr := stderr w @
                 [assertion_failed
                    ''netplan_state_finish_nm_write(&global_state, rootdir, NULL)''],
               disk := snd (fin (global_state w) rootdir (disk w))\<rparr>))"
  by (cases "fin (global_state w) rootdir (disk w)") (simp add: write_nm_conf_finish_def)

lemma write_ovs_conf_finish_outcome:
  "write_ovs_conf_finish fin rootdir w =
     (if fst (fin (global_state w) rootdir (disk w))
      then (Returned (), w\<lparr>disk := snd (fin (global_state w) rootdir (disk w))\<rparr>)
      else (Aborted,
            w\<lparr>stderr := stderr w @
                 [assertion_failed
                    ''netplan_state_finish_ovs_write(&global_state, rootdir, NULL)''],
               disk := snd (fin (global_state w) rootdir (disk w))\<rparr>))"
  by (cases "fin (global_state w) rootdir (disk w)") (simp add: write_ovs_conf_finish_def)

lemma finish_wrappers_never_exit:
  "fst (write_nm_conf_finish fin rootdir w) \<noteq> Exited n \<and>
   fst (write_ovs_conf_finish fin rootdir w) \<noteq> Exited n"
  by (simp add: write_nm_conf_finish_outcome write_ovs_conf_finish_outcome)

subsection \<open>Enablement\<close>

text \<open>
  The statement around \<open>symlink\<close>: a new link and an existing link both let the run go
  on, the latter without a change; any other error ends it.
\<close>

lemma symlink_or_exit_created:
  "symlink target link (disk w) = Inr d \<Longrightarrow>
   symlink_or_exit symlink target link w = (Returned (), w\<lparr>disk := d\<rparr>)"
  by (simp add: symlink_or_exit_def)

lemma symlink_or_exit_eexist:
  "symlink target link (disk w) = Inl EEXIST \<Longrightarrow>
   symlink_or_exit symlink target link w = (Returned (), w)"
  by (simp add: symlink_or_exit_def)

lemma symlink_or_exit_fatal:
  "symlink target link (disk w) = Inl e \<Longrightarrow> e \<noteq> EEXIST \<Longrightarrow>
   symlink_or_exit symlink target link w =
     (Exited 1, w\<lparr>stderr := stderr w @
        [''failed to create enablement symlink: '' @ strerror e @ [CHR 0x0A]]\<rparr>)"
  by (simp add: symlink_or_exit_def)

lemma symlink_or_exit_cases:
  "fst (symlink_or_exit symlink target link w) = Returned () \<or>
   fst (symlink_or_exit symlink target link w) = Exited 1"
  by (simp add: symlink_or_exit_def split: sum.split)

lemma and_then_Returned: "and_then (Returned u, w) f = f w"
  by (simp add: and_then_def)

lemma and_then_Exited: "and_then (Exited n, w) f = (Exited n, w)"
  by (simp add: and_then_def)

text \<open>
  Claim C7.  For every generator directory, whatever the system calls do elsewhere:
  when both enablement links exist already (each \<open>symlink\<close> call fails with \<open>EEXIST\<close>),
  \<open>enable_networkd\<close> returns normally and prints nothing; when the creation of the first
  or of the second link fails with any other error, the message is printed and the
  process ends with status 1.  When \<open>safe_mkdir_p_dir\<close> ends the process, so does
  \<open>enable_networkd\<close>.
\<close>

theorem enable_networkd_eexist_ok_other_errors_fatal:
  "(mkd (networkd_link gd) w = (Returned (), wa) \<longrightarrow>
    symlink ''../systemd-networkd.service'' (networkd_link gd) (disk wa) = Inl EEXIST \<longrightarrow>
    mkd (wait_online_link gd) wa = (Returned (), wb) \<longrightarrow>
    symlink ''/lib/systemd/system/systemd-networkd-wait-online.service''
      (wait_online_link gd) (disk wb) = Inl EEXIST \<longrightarrow>
    enable_networkd mkd symlink gd w = (Returned (), wb)) \<and>
   (mkd (networkd_link gd) w = (Returned (), wa) \<longrightarrow>
    symlink ''../systemd-networkd.service'' (networkd_link gd) (disk wa) = Inl e \<longrightarrow>
    e \<noteq> EEXIST \<longrightarrow>
    enable_networkd mkd symlink gd w =
      (Exited 1, wa\<lparr>stderr := stderr wa @
         [''failed to create enablement symlink: '' @ strerror e @ [CHR 0x0A]]\<rparr>)) \<and>
   (mkd (networkd_link gd) w = (Returned (), wa) \<longrightarrow>
    symlink_or_exit symlink ''../systemd-networkd.service'' (networkd_link gd) wa
      = (Returned (), wc) \<longrightarrow>
    mkd (wait_online_link gd) wc = (Returned (), wb) \<longrightarrow>
    symlink ''/lib/systemd/system/systemd-networkd-wait-online.service''
      (wait_online_link gd) (disk wb) = Inl e \<longrightarrow>
    e \<noteq> EEXIST \<longrightarrow>
    enable_networkd mkd symlink gd w =
      (Exited 1, wb\<lparr>stderr := stderr wb @
         [''failed to create enablement symlink: '' @ strerror e @ [CHR 0x0A]]\<rparr>)) \<and>
   (mkd (networkd_link gd) w = (Exited n, wa) \<longrightarrow>
    enable_networkd mkd symlink gd w = (Exited n, wa)) \<and>
   (mkd (networkd_link gd) w = (Returned (), wa) \<longrightarrow>
    symlink_or_exit symlink ''../systemd-networkd.service'' (networkd_link gd) wa
      = (Returned (), wc) \<longrightarrow>
    mkd (wait_online_link gd) wc = (Exited n, wb) \<longrightarrow>
    enable_networkd mkd symlink gd w = (Exited n, wb))"
proof -
  have unfolded: "enable_networkd mkd symlink gd w =
      and_then (mkd (networkd_link gd) w) (\<lambda>w.
      and_then (symlink_or_exit symlink ''../systemd-networkd.service'' (networkd_link gd) w) (\<lambda>w.
      and_then (mkd (wait_online_link gd) w) (\<lambda>w.
      symlink_or_exit symlink ''/lib/systemd/system/systemd-networkd-wait-online.service''
        (wait_online_link gd) w)))"
    by (simp add: enable_networkd_def Let_def)
  show ?thesis
    unfolding unfolded
    by (simp add: and_then_Returned and_then_Exited symlink_or_exit_eexist symlink_or_exit_fatal)
qed

text \<open>
  On the table of links: a first run under \<open>/run/gen\<close> creates both links, a second run
  finds them and changes nothing, and a run under the read-only \<open>/ro\<close> is fatal.
\<close>

theorem enable_networkd_witness:
  "enable_networkd mkdir_ok table_symlink ''/run/gen'' (initial_world []) =
     (Returned (), initial_world enabled_links) \<and>
   enable_networkd mkdir_ok table_symlink ''/run/gen'' (initial_world enabled_links) =
     (Returned (), initial_world enabled_links) \<and>
   enable_networkd mkdir_ok table_symlink ''/ro'' (initial_world []) =
     (Exited 1, (initial_world [])\<lparr>stderr :=
        [''failed to create enablement symlink: Read-only file system'' @ [CHR 0x0A]]\<rparr>)"
proof -
  have a: "enable_networkd mkdir_ok table_symlink ''/run/gen'' (initial_world enabled_links) =
     (Returned (), initial_world enabled_links)"
    using enable_networkd_eexist_ok_other_errors_fatal
      [where mkd = mkdir_ok and symlink = table_symlink and gd = "''/run/gen''"
         and w = "initial_world enabled_links" and wa = "initial_world enabled_links"
         and wb = "initial_world enabled_links"]
    by (simp add: mkdir_ok_def table_symlink_def enabled_links_def initial_world_def
        g_build_path_def strip_trailing_def strip_leading_def leading_separators_def
        trailing_separators_def G_DIR_SEPARATOR_def)
  have b: "enable_networkd mkdir_ok table_symlink ''/ro'' (initial_world []) =
     (Exited 1, (initial_world [])\<lparr>stderr :=
        [''failed to create enablement symlink: Read-only file system'' @ [CHR 0x0A]]\<rparr>)"
    using enable_networkd_eexist_ok_other_errors_fatal
      [where mkd = mkdir_ok and symlink = table_symlink and gd = "''/ro''"
         and w = "initial_world []" and wa = "initial_world []" and e = EROFS]
    by (simp add: mkdir_ok_def table_symlink_def initial_world_def
        g_build_path_def strip_trailing_def strip_leading_def leading_separators_def
        trailing_separators_def G_DIR_SEPARATOR_def)
  have c: "enable_networkd mkdir_ok table_symlink ''/run/gen'' (initial_world []) =
     (Returned (), initial_world enabled_links)"
    by (simp add: enable_networkd_def and_then_def symlink_or_exit_def mkdir_ok_def
        table_symlink_def enabled_links_def initial_world_def
        g_build_path_def strip_trailing_def strip_leading_def leading_separators_def
        trailing_separators_def G_DIR_SEPARATOR_def)
  from a b c show ?thesis by simp
qed

end
